theory Spec2Isabelle
  imports Main
begin

text \<open>
  The promise library of \<^verbatim>\<open>main.go\<close>: the \<^verbatim>\<open>Promise\<close> struct, its settlement
  methods \<^verbatim>\<open>resolve\<close>, \<^verbatim>\<open>reject\<close> and \<^verbatim>\<open>resetState\<close>, panic recovery, the
  constructors \<^verbatim>\<open>New\<close>, \<^verbatim>\<open>Resolve\<close> and \<^verbatim>\<open>Reject\<close>, the combinators
  \<^verbatim>\<open>Then\<close>, \<^verbatim>\<open>Catch\<close> and \<^verbatim>\<open>Finally\<close>, and \<^verbatim>\<open>Await\<close>. Promises live in
  an explicit heap, since a promise can be the value another promise is resolved with.
  Each Go function is a transformer of the heap that returns, panics or blocks.
\<close>

section \<open>Values, errors and recovered panics\<close>

text \<open>
  A \<^verbatim>\<open>*Promise\<close> is a reference into the heap of promises. An \<^verbatim>\<open>interface{}\<close>
  value is one of the shapes the program distinguishes: nil, a plain value, or a
  pointer to a promise (the only case of the type switch in \<^verbatim>\<open>resolve\<close>).
\<close>

type_synonym ref = nat

datatype val = VNil | VInt int | VString string | VPromise ref

text \<open>
  Go's \<^verbatim>\<open>error\<close> is an interface value: \<open>None\<close> is the nil error, \<open>Some m\<close> an
  error whose \<^verbatim>\<open>Error()\<close> text is \<open>m\<close>.
\<close>

type_synonym error = "string option"

text \<open>
  What \<^verbatim>\<open>recover()\<close> returns, as the type switch of \<^verbatim>\<open>handlePanic\<close> sees it:
  nil (no panic is in flight, or the panic value was nil), a value implementing
  \<^verbatim>\<open>error\<close> (with its \<^verbatim>\<open>Error()\<close> text), or any other value (with its
  \<^verbatim>\<open>fmt.Sprint\<close> text).
\<close>

datatype recovered = RecNil | RecError string | RecOther string

section \<open>The Promise struct\<close>

definition PENDING :: int where "PENDING = 0"
definition FULFILLED :: int where "FULFILLED = 1"
definition REJECTED :: int where "REJECTED = 2"

text \<open>
  Both channels are made with capacity 1: the buffer is empty (\<open>None\<close>) or holds one
  item. The \<^verbatim>\<open>executor\<close> field is only read once, by the goroutine that \<^verbatim>\<open>New\<close>
  starts, so the model passes the executor to that goroutine directly.
\<close>

record promise =
  state :: int
  resolveChannel :: "val option"
  rejectChannel :: "error option"
  result :: val
  err :: error

section \<open>Goroutine code as state transformers\<close>

text \<open>
  The world is the heap of allocated promises and the lines written to standard output.
  A piece of Go code run from a world returns, panics, or blocks on a channel operation.
  A \<^verbatim>\<open>select\<close> with both communications ready may take either, so a run yields
  the list of its possible outcomes.
\<close>

record world =
  heap :: "promise list"
  stdout :: "string list"

datatype 'a outcome = Returns 'a world | Panics recovered world | Blocks world

type_synonym 'a go = "world \<Rightarrow> 'a outcome list"

fun world_of :: "'a outcome \<Rightarrow> world" where
  "world_of (Returns a w) = w"
| "world_of (Panics r w) = w"
| "world_of (Blocks w) = w"

definition go_return :: "'a \<Rightarrow> 'a go" where
  "go_return a w = [Returns a w]"

fun continue :: "('a \<Rightarrow> 'b go) \<Rightarrow> 'a outcome \<Rightarrow> 'b outcome list" where
  "continue f (Returns a w) = f a w"
| "continue f (Panics r w) = [Panics r w]"
| "continue f (Blocks w) = [Blocks w]"

definition go_bind :: "'a go \<Rightarrow> ('a \<Rightarrow> 'b go) \<Rightarrow> 'b go" where
  "go_bind m f w = concat (map (continue f) (m w))"

definition nil_dereference :: recovered where
  "nil_dereference = RecError ''runtime error: invalid memory address or nil pointer dereference''"

text \<open>Reading through a pointer that is not a live promise panics.\<close>

definition load :: "ref \<Rightarrow> promise go" where
  "load p w = (if p < length (heap w) then [Returns (heap w ! p) w] else [Panics nil_dereference w])"

definition modify :: "ref \<Rightarrow> (promise \<Rightarrow> promise) \<Rightarrow> unit go" where
  "modify p f w =
     (if p < length (heap w) then [Returns () (w\<lparr>heap := (heap w)[p := f (heap w ! p)]\<rparr>)]
      else [Panics nil_dereference w])"

text \<open>A send on a full buffer blocks.\<close>

definition send_resolveChannel :: "ref \<Rightarrow> val \<Rightarrow> unit go" where
  "send_resolveChannel p v =
     go_bind (load p) (\<lambda>pr.
       case resolveChannel pr of
         None \<Rightarrow> modify p (\<lambda>pr. pr\<lparr>resolveChannel := Some v\<rparr>)
       | Some u \<Rightarrow> (\<lambda>w. [Blocks w]))"

definition send_rejectChannel :: "ref \<Rightarrow> error \<Rightarrow> unit go" where
  "send_rejectChannel p e =
     go_bind (load p) (\<lambda>pr.
       case rejectChannel pr of
         None \<Rightarrow> modify p (\<lambda>pr. pr\<lparr>rejectChannel := Some e\<rparr>)
       | Some u \<Rightarrow> (\<lambda>w. [Blocks w]))"

text \<open>
  The \<^verbatim>\<open>select\<close> over a promise's two channels, with the body of each case as a
  continuation. It blocks while both buffers are empty; the receive empties the buffer
  it reads.
\<close>

definition select_channels :: "ref \<Rightarrow> (val \<Rightarrow> 'a go) \<Rightarrow> (error \<Rightarrow> 'a go) \<Rightarrow> 'a go" where
  "select_channels p onResult onErr =
     go_bind (load p) (\<lambda>pr.
       case (resolveChannel pr, rejectChannel pr) of
         (None, None) \<Rightarrow> (\<lambda>w. [Blocks w])
       | (Some v, None) \<Rightarrow>
           go_bind (modify p (\<lambda>pr. pr\<lparr>resolveChannel := None\<rparr>)) (\<lambda>_. onResult v)
       | (None, Some e) \<Rightarrow>
           go_bind (modify p (\<lambda>pr. pr\<lparr>rejectChannel := None\<rparr>)) (\<lambda>_. onErr e)
       | (Some v, Some e) \<Rightarrow>
           (\<lambda>w. go_bind (modify p (\<lambda>pr. pr\<lparr>resolveChannel := None\<rparr>)) (\<lambda>_. onResult v) w
               @ go_bind (modify p (\<lambda>pr. pr\<lparr>rejectChannel := None\<rparr>)) (\<lambda>_. onErr e) w))"

section \<open>Settlement: reject, resetState, Await, resolve\<close>

definition reject :: "ref \<Rightarrow> error \<Rightarrow> unit go" where
  "reject p e =
     go_bind (load p) (\<lambda>pr.
       if state pr \<noteq> PENDING then go_return ()
       else go_bind (modify p (\<lambda>pr. pr\<lparr>state := REJECTED\<rparr>)) (\<lambda>_. send_rejectChannel p e))"

definition resetState :: "ref \<Rightarrow> unit go" where
  "resetState p = modify p (\<lambda>pr. pr\<lparr>state := PENDING\<rparr>)"

definition Await :: "ref \<Rightarrow> (val \<times> error) go" where
  "Await p =
     go_bind
       (select_channels p
          (\<lambda>r. modify p (\<lambda>pr. pr\<lparr>result := r\<rparr>))
          (\<lambda>e. modify p (\<lambda>pr. pr\<lparr>err := e\<rparr>)))
       (\<lambda>_. go_bind (load p) (\<lambda>pr. go_return (result pr, err pr)))"

definition resolve :: "ref \<Rightarrow> val \<Rightarrow> unit go" where
  "resolve p resolution =
     go_bind (load p) (\<lambda>pr.
       if state pr \<noteq> PENDING then go_return ()
       else
         (case resolution of
            VPromise q \<Rightarrow>
              go_bind (Await q) (\<lambda>(flattenedResult, e).
                if e \<noteq> None then reject p e
                else go_bind (send_resolveChannel p flattenedResult)
                       (\<lambda>_. modify p (\<lambda>pr. pr\<lparr>state := FULFILLED\<rparr>)))
          | _ \<Rightarrow>
              go_bind (send_resolveChannel p resolution)
                (\<lambda>_. modify p (\<lambda>pr. pr\<lparr>state := FULFILLED\<rparr>))))"

section \<open>Panic recovery and construction\<close>

definition handlePanic :: "ref \<Rightarrow> recovered \<Rightarrow> unit go" where
  "handlePanic p e =
     (if e \<noteq> RecNil then
        (case e of
           RecNil \<Rightarrow> reject p (Some ''panic recovery with nil error'')
         | RecError m \<Rightarrow> reject p (Some (''panic recovery with error: '' @ m))
         | RecOther s \<Rightarrow> reject p (Some (''panic recovery with unknown error: '' @ s)))
      else go_return ())"

text \<open>
  The body of the goroutine of \<^verbatim>\<open>New\<close>: the executor with \<^verbatim>\<open>handlePanic\<close>
  deferred. The deferred call runs when the executor returns (\<^verbatim>\<open>recover()\<close> is then
  nil) and when it panics; a goroutine parked on a channel never reaches it.
\<close>

fun deferred_handlePanic :: "ref \<Rightarrow> unit outcome \<Rightarrow> unit outcome list" where
  "deferred_handlePanic p (Returns u w) = handlePanic p RecNil w"
| "deferred_handlePanic p (Panics r w) = handlePanic p r w"
| "deferred_handlePanic p (Blocks w) = [Blocks w]"

type_synonym executor = "(val \<Rightarrow> unit go) \<Rightarrow> (error \<Rightarrow> unit go) \<Rightarrow> unit go"

definition goroutine :: "ref \<Rightarrow> executor \<Rightarrow> unit go" where
  "goroutine p executor w =
     concat (map (deferred_handlePanic p) (executor (resolve p) (reject p) w))"

text \<open>
  \<^verbatim>\<open>New\<close> allocates the promise and starts the goroutine. The schedule modelled is
  the one in which a new goroutine runs before its creator continues: the goroutine is
  run at the \<^verbatim>\<open>go\<close> statement, up to its return or to the channel operation it
  parks on, and \<^verbatim>\<open>New\<close> returns the promise in both cases. Other schedules are
  written out as compositions of the same functions where a statement needs one
  (\<open>settle_reset_panic\<close> below). A panic that escapes the deferred recovery ends the
  program.
\<close>

fun spawned :: "ref \<Rightarrow> unit outcome \<Rightarrow> ref outcome" where
  "spawned p (Returns u w) = Returns p w"
| "spawned p (Blocks w) = Returns p w"
| "spawned p (Panics r w) = Panics r w"

definition New :: "executor \<Rightarrow> ref go" where
  "New executor w =
     (let p = length (heap w);
          w1 = w\<lparr>heap := heap w @
                 [\<lparr>state = PENDING, resolveChannel = None, rejectChannel = None,
                   result = VNil, err = None\<rparr>]\<rparr>
      in map (spawned p) (goroutine p executor w1))"

definition Reject :: "error \<Rightarrow> ref go" where
  "Reject e = New (\<lambda>resolve reject. reject e)"

definition Resolve :: "val \<Rightarrow> ref go" where
  "Resolve v = New (\<lambda>resolve reject. resolve v)"

section \<open>Chaining: Then, Catch, Finally\<close>

text \<open>
  A handler is a Go function supplied by the caller: it may print lines, and it returns
  a value or panics.
\<close>

datatype 'a answer = Gives 'a | PanicsWith recovered

type_synonym 'a call = "string list \<times> 'a answer"

fun invoke :: "'a call \<Rightarrow> 'a go" where
  "invoke (out, Gives a) w = [Returns a (w\<lparr>stdout := stdout w @ out\<rparr>)]"
| "invoke (out, PanicsWith r) w = [Panics r (w\<lparr>stdout := stdout w @ out\<rparr>)]"

text \<open>
  The executors that \<^verbatim>\<open>Then\<close>, \<^verbatim>\<open>Catch\<close> and \<^verbatim>\<open>Finally\<close> hand to \<^verbatim>\<open>New\<close>
  are closures over the parent promise and the handlers; each gets a name here.
\<close>

definition Then_executor :: "ref \<Rightarrow> (val \<Rightarrow> val call) \<Rightarrow> (error \<Rightarrow> error call) \<Rightarrow> executor" where
  "Then_executor p OnFulfill OnRejection = (\<lambda>resolve reject.
     select_channels p
       (\<lambda>r. go_bind (resetState p) (\<lambda>_. go_bind (invoke (OnFulfill r)) resolve))
       (\<lambda>e. go_bind (invoke (OnRejection e)) reject))"

definition Then :: "ref \<Rightarrow> (val \<Rightarrow> val call) \<Rightarrow> (error \<Rightarrow> error call) \<Rightarrow> ref go" where
  "Then p OnFulfill OnRejection = New (Then_executor p OnFulfill OnRejection)"

definition Catch_executor :: "ref \<Rightarrow> (error \<Rightarrow> error call) \<Rightarrow> executor" where
  "Catch_executor p OnRejection = (\<lambda>resolve reject.
     select_channels p
       (\<lambda>r. resolve r)
       (\<lambda>e. go_bind (invoke (OnRejection e)) reject))"

definition Catch :: "ref \<Rightarrow> (error \<Rightarrow> error call) \<Rightarrow> ref go" where
  "Catch p OnRejection = New (Catch_executor p OnRejection)"

definition Finally_executor :: "ref \<Rightarrow> val call \<Rightarrow> executor" where
  "Finally_executor p onFinally = (\<lambda>resolve reject.
     go_bind (select_channels p (\<lambda>r. resolve r) (\<lambda>e. reject e))
       (\<lambda>_. go_bind (invoke onFinally) (\<lambda>_. go_return ())))"

definition Finally :: "ref \<Rightarrow> val call \<Rightarrow> ref go" where
  "Finally p onFinally = New (Finally_executor p onFinally)"

section \<open>Frame predicate, composite expressions and example worlds\<close>

text \<open>
  Every outcome in a list leaves the promise \<open>p\<close> allocated with its \<^verbatim>\<open>state\<close> field
  equal to \<open>s\<close>.
\<close>

definition keeps_state :: "ref \<Rightarrow> int \<Rightarrow> 'a outcome list \<Rightarrow> bool" where
  "keeps_state p s ocs =
     (\<forall>oc \<in> set ocs. p < length (heap (world_of oc)) \<and> state (heap (world_of oc) ! p) = s)"

text \<open>
  The Go expressions \<^verbatim>\<open>Resolve(Reject(errX))\<close>, \<^verbatim>\<open>Resolve(Resolve(v))\<close>,
  \<^verbatim>\<open>Reject(errX).Then(f, g)\<close> and \<^verbatim>\<open>Reject(errX).Catch(h)\<close>: the argument or
  receiver is evaluated first.
\<close>

definition Resolve_Reject :: "error \<Rightarrow> ref go" where
  "Resolve_Reject errX = go_bind (Reject errX) (\<lambda>inner. Resolve (VPromise inner))"

definition Resolve_Resolve :: "val \<Rightarrow> ref go" where
  "Resolve_Resolve v = go_bind (Resolve v) (\<lambda>inner. Resolve (VPromise inner))"

definition Reject_Then :: "error \<Rightarrow> (val \<Rightarrow> val call) \<Rightarrow> (error \<Rightarrow> error call) \<Rightarrow> ref go" where
  "Reject_Then errX f g = go_bind (Reject errX) (\<lambda>parent. Then parent f g)"

definition Reject_Catch :: "error \<Rightarrow> (error \<Rightarrow> error call) \<Rightarrow> ref go" where
  "Reject_Catch errX h = go_bind (Reject errX) (\<lambda>parent. Catch parent h)"

text \<open>Executors that panic: at once, after a call of resolve, after a call of reject.\<close>

definition go_panic :: "recovered \<Rightarrow> 'a go" where
  "go_panic r w = [Panics r w]"

definition panicking_executor :: "recovered \<Rightarrow> executor" where
  "panicking_executor r = (\<lambda>resolve reject. go_panic r)"

definition resolve_then_panic :: "val \<Rightarrow> recovered \<Rightarrow> executor" where
  "resolve_then_panic v r = (\<lambda>resolve reject. go_bind (resolve v) (\<lambda>_. go_panic r))"

definition reject_then_panic :: "error \<Rightarrow> recovered \<Rightarrow> executor" where
  "reject_then_panic e r = (\<lambda>resolve reject. go_bind (reject e) (\<lambda>_. go_panic r))"

text \<open>
  Handlers: two that pass their argument on, and the \<^verbatim>\<open>Catch\<close> handler of
  \<^verbatim>\<open>main\<close>, which prints and returns nil.
\<close>

definition pass_value :: "val \<Rightarrow> val call" where
  "pass_value v = ([], Gives v)"

definition pass_error :: "error \<Rightarrow> error call" where
  "pass_error e = ([], Gives e)"

definition swallow :: "error \<Rightarrow> error call" where
  "swallow e = ([''I am in catch block''], Gives None)"

text \<open>Worlds with no promise, one pending promise, two pending promises.\<close>

definition empty_world :: world where
  "empty_world = \<lparr>heap = [], stdout = []\<rparr>"

definition one_pending_world :: world where
  "one_pending_world =
     \<lparr>heap = [\<lparr>state = PENDING, resolveChannel = None, rejectChannel = None,
               result = VNil, err = None\<rparr>],
      stdout = []\<rparr>"

definition two_pending_world :: world where
  "two_pending_world =
     \<lparr>heap = [\<lparr>state = PENDING, resolveChannel = None, rejectChannel = None,
               result = VNil, err = None\<rparr>,
              \<lparr>state = PENDING, resolveChannel = None, rejectChannel = None,
               result = VNil, err = None\<rparr>],
      stdout = []\<rparr>"

text \<open>One promise, fulfilled with 1, the value still in its resolve channel.\<close>

definition fulfilled_world :: world where
  "fulfilled_world =
     \<lparr>heap = [\<lparr>state = FULFILLED, resolveChannel = Some (VInt 1), rejectChannel = None,
               result = VNil, err = None\<rparr>],
      stdout = []\<rparr>"

text \<open>
  Promise 0 is fulfilled with 1 and promise 1 is rejected with \<open>boom\<close>; neither has
  been read.
\<close>

definition settled_pair_world :: world where
  "settled_pair_world =
     \<lparr>heap = [\<lparr>state = FULFILLED, resolveChannel = Some (VInt 1), rejectChannel = None,
               result = VNil, err = None\<rparr>,
              \<lparr>state = REJECTED, resolveChannel = None, rejectChannel = Some (Some ''boom''),
               result = VNil, err = None\<rparr>],
      stdout = []\<rparr>"

text \<open>
  Promise 0 has been rejected with the error \<open>boom\<close>, which still sits in its reject
  channel; promise 1 is pending. The second world is the first after
  \<^verbatim>\<open>resolve\<close> of promise 1 with promise 0.
\<close>

definition nested_rejection_world :: world where
  "nested_rejection_world =
     \<lparr>heap = [\<lparr>state = REJECTED, resolveChannel = None, rejectChannel = Some (Some ''boom''),
               result = VNil, err = None\<rparr>,
              \<lparr>state = PENDING, resolveChannel = None, rejectChannel = None,
               result = VNil, err = None\<rparr>],
      stdout = []\<rparr>"

definition nested_rejection_after :: world where
  "nested_rejection_after =
     \<lparr>heap = [\<lparr>state = REJECTED, resolveChannel = None, rejectChannel = None,
               result = VNil, err = Some ''boom''\<rparr>,
              \<lparr>state = REJECTED, resolveChannel = None, rejectChannel = Some (Some ''boom''),
               result = VNil, err = None\<rparr>],
      stdout = []\<rparr>"

text \<open>
  The world after \<^verbatim>\<open>Reject(errors.New("boom")).Catch(swallow)\<close> from the empty world:
  promise 0 is the rejected parent, read by the goroutine of promise 1.
\<close>

definition swallowed_world :: world where
  "swallowed_world =
     \<lparr>heap = [\<lparr>state = REJECTED, resolveChannel = None, rejectChannel = None,
               result = VNil, err = None\<rparr>,
              \<lparr>state = REJECTED, resolveChannel = None, rejectChannel = Some None,
               result = VNil, err = None\<rparr>],
      stdout = [''I am in catch block'']\<rparr>"

text \<open>
  One schedule of two goroutines, from the world in which promise 0 and its
  \<^verbatim>\<open>Then\<close> successor, promise 1, are both allocated and pending. The goroutine of
  promise 0 runs an executor that calls \<^verbatim>\<open>resolve(1)\<close> and later panics with the
  string \<open>late\<close>. Between the two, the goroutine of promise 1 runs: it receives the value,
  calls \<^verbatim>\<open>resetState\<close> on promise 0 and resolves promise 1. The panic then unwinds
  into the deferred \<^verbatim>\<open>handlePanic\<close> of promise 0.
\<close>

definition settle_reset_panic :: "unit go" where
  "settle_reset_panic =
     go_bind (resolve 0 (VInt 1)) (\<lambda>_.
     go_bind (goroutine (Suc 0) (Then_executor 0 pass_value pass_error)) (\<lambda>_.
     handlePanic 0 (RecOther ''late'')))"

definition settle_reset_panic_after :: world where
  "settle_reset_panic_after =
     \<lparr>heap = [\<lparr>state = REJECTED, resolveChannel = None,
               rejectChannel = Some (Some ''panic recovery with unknown error: late''),
               result = VNil, err = None\<rparr>,
              \<lparr>state = FULFILLED, resolveChannel = Some (VInt 1), rejectChannel = None,
               result = VNil, err = None\<rparr>],
      stdout = []\<rparr>"

text \<open>One promise, rejected with \<open>boom\<close>, the error still in its reject channel.\<close>

definition rejected_world :: world where
  "rejected_world =
     \<lparr>heap = [\<lparr>state = REJECTED, resolveChannel = None, rejectChannel = Some (Some ''boom''),
               result = VNil, err = None\<rparr>],
      stdout = []\<rparr>"

section \<open>Facts about the primitives\<close>

lemma state_constants_distinct [simp]:
  "PENDING \<noteq> FULFILLED" "PENDING \<noteq> REJECTED" "FULFILLED \<noteq> REJECTED"
  "FULFILLED \<noteq> PENDING" "REJECTED \<noteq> PENDING" "REJECTED \<noteq> FULFILLED"
  by (simp_all add: PENDING_def FULFILLED_def REJECTED_def)

lemma go_bind_single_Returns: "m w = [Returns a w'] \<Longrightarrow> go_bind m f w = f a w'"
  by (simp add: go_bind_def)

lemma go_bind_return: "go_bind (go_return a) f w = f a w"
  by (simp add: go_bind_def go_return_def)

lemma go_bind_load_live:
  "p < length (heap w) \<Longrightarrow> go_bind (load p) f w = f (heap w ! p) w"
  by (simp add: go_bind_def load_def)

lemma modify_live:
  "p < length (heap w) \<Longrightarrow>
   modify p f w = [Returns () (w\<lparr>heap := (heap w)[p := f (heap w ! p)]\<rparr>)]"
  by (simp add: modify_def)

lemma go_bind_modify_live:
  "p < length (heap w) \<Longrightarrow>
   go_bind (modify p f) g w = g () (w\<lparr>heap := (heap w)[p := f (heap w ! p)]\<rparr>)"
  by (simp add: go_bind_def modify_def)

lemma send_resolveChannel_live:
  "p < length (heap w) \<Longrightarrow> send_resolveChannel p v w =
     (if resolveChannel (heap w ! p) = None
      then [Returns () (w\<lparr>heap := (heap w)[p := (heap w ! p)\<lparr>resolveChannel := Some v\<rparr>]\<rparr>)]
      else [Blocks w])"
  by (simp add: send_resolveChannel_def go_bind_load_live modify_live split: option.splits)

lemma send_rejectChannel_live:
  "p < length (heap w) \<Longrightarrow> send_rejectChannel p e w =
     (if rejectChannel (heap w ! p) = None
      then [Returns () (w\<lparr>heap := (heap w)[p := (heap w ! p)\<lparr>rejectChannel := Some e\<rparr>]\<rparr>)]
      else [Blocks w])"
  by (simp add: send_rejectChannel_def go_bind_load_live modify_live split: option.splits)

lemma reject_live:
  "p < length (heap w) \<Longrightarrow> reject p e w =
     (if state (heap w ! p) \<noteq> PENDING then [Returns () w]
      else if rejectChannel (heap w ! p) = None
      then [Returns () (w\<lparr>heap := (heap w)[p := (heap w ! p)\<lparr>state := REJECTED, rejectChannel := Some e\<rparr>]\<rparr>)]
      else [Blocks (w\<lparr>heap := (heap w)[p := (heap w ! p)\<lparr>state := REJECTED\<rparr>]\<rparr>)])"
  by (simp add: reject_def go_return_def go_bind_load_live go_bind_modify_live send_rejectChannel_live)

lemma select_channels_live:
  "p < length (heap w) \<Longrightarrow> select_channels p kv ke w =
     (case (resolveChannel (heap w ! p), rejectChannel (heap w ! p)) of
        (None, None) \<Rightarrow> [Blocks w]
      | (Some v, None) \<Rightarrow> kv v (w\<lparr>heap := (heap w)[p := (heap w ! p)\<lparr>resolveChannel := None\<rparr>]\<rparr>)
      | (None, Some e) \<Rightarrow> ke e (w\<lparr>heap := (heap w)[p := (heap w ! p)\<lparr>rejectChannel := None\<rparr>]\<rparr>)
      | (Some v, Some e) \<Rightarrow>
          kv v (w\<lparr>heap := (heap w)[p := (heap w ! p)\<lparr>resolveChannel := None\<rparr>]\<rparr>)
          @ ke e (w\<lparr>heap := (heap w)[p := (heap w ! p)\<lparr>rejectChannel := None\<rparr>]\<rparr>))"
  by (simp add: select_channels_def go_bind_load_live go_bind_modify_live split: option.splits)

lemma Await_live:
  "p < length (heap w) \<Longrightarrow> Await p w =
     (case (resolveChannel (heap w ! p), rejectChannel (heap w ! p)) of
        (None, None) \<Rightarrow> [Blocks w]
      | (Some v, None) \<Rightarrow>
          [Returns (v, err (heap w ! p))
             (w\<lparr>heap := (heap w)[p := (heap w ! p)\<lparr>resolveChannel := None, result := v\<rparr>]\<rparr>)]
      | (None, Some e) \<Rightarrow>
          [Returns (result (heap w ! p), e)
             (w\<lparr>heap := (heap w)[p := (heap w ! p)\<lparr>rejectChannel := None, err := e\<rparr>]\<rparr>)]
      | (Some v, Some e) \<Rightarrow>
          [Returns (v, err (heap w ! p))
             (w\<lparr>heap := (heap w)[p := (heap w ! p)\<lparr>resolveChannel := None, result := v\<rparr>]\<rparr>),
           Returns (result (heap w ! p), e)
             (w\<lparr>heap := (heap w)[p := (heap w ! p)\<lparr>rejectChannel := None, err := e\<rparr>]\<rparr>)])"
  by (simp add: Await_def go_bind_def select_channels_live modify_live load_def go_return_def
           split: option.splits)

lemma Await_dangling:
  "\<not> p < length (heap w) \<Longrightarrow> Await p w = [Panics nil_dereference w]"
  by (simp add: Await_def go_bind_def select_channels_def load_def)

lemma resolve_value_live:
  "p < length (heap w) \<Longrightarrow> (\<forall>q. v \<noteq> VPromise q) \<Longrightarrow> resolve p v w =
     (if state (heap w ! p) \<noteq> PENDING then [Returns () w]
      else if resolveChannel (heap w ! p) = None
      then [Returns () (w\<lparr>heap := (heap w)[p := (heap w ! p)\<lparr>resolveChannel := Some v, state := FULFILLED\<rparr>]\<rparr>)]
      else [Blocks w])"
  by (cases v)
     (simp_all add: resolve_def go_return_def load_def go_bind_def
        send_resolveChannel_live modify_live)

lemma resolve_promise_live:
  "p < length (heap w) \<Longrightarrow> resolve p (VPromise q) w =
     (if state (heap w ! p) \<noteq> PENDING then [Returns () w]
      else go_bind (Await q) (\<lambda>(flattenedResult, e).
             if e \<noteq> None then reject p e
             else go_bind (send_resolveChannel p flattenedResult)
                    (\<lambda>_. modify p (\<lambda>pr. pr\<lparr>state := FULFILLED\<rparr>))) w)"
  by (simp add: resolve_def go_return_def go_bind_load_live)

lemma handlePanic_cases:
  "handlePanic p RecNil = go_return ()"
  "handlePanic p (RecError m) = reject p (Some (''panic recovery with error: '' @ m))"
  "handlePanic p (RecOther s) = reject p (Some (''panic recovery with unknown error: '' @ s))"
  by (simp_all add: handlePanic_def)

lemma handlePanic_settled:
  "p < length (heap w) \<Longrightarrow> state (heap w ! p) \<noteq> PENDING \<Longrightarrow> handlePanic p r w = [Returns () w]"
  by (cases r) (simp_all add: handlePanic_cases go_return_def reject_live)

text \<open>After resolve or reject has returned, the promise is not pending.\<close>

lemma reject_returns_settled:
  assumes "p < length (heap w)" "Returns u w' \<in> set (reject p e w)"
  shows "p < length (heap w') \<and> state (heap w' ! p) \<noteq> PENDING"
  using assms by (auto simp: reject_live split: if_splits)

lemma resolve_returns_settled:
  assumes live: "p < length (heap w)" and ret: "Returns u w' \<in> set (resolve p v w)"
  shows "p < length (heap w') \<and> state (heap w' ! p) \<noteq> PENDING"
proof (cases "\<exists>q. v = VPromise q")
  case False
  with live ret show ?thesis
    by (auto simp: resolve_value_live split: if_splits)
next
  case True
  then obtain q where v: "v = VPromise q" by blast
  show ?thesis
  proof (cases "q < length (heap w)")
    case False
    with live ret v show ?thesis
      by (auto simp: resolve_promise_live go_bind_def Await_dangling split: if_splits)
  next
    case True
    with live ret v show ?thesis
      by (auto simp: resolve_promise_live go_bind_def Await_live reject_live
            send_resolveChannel_live modify_live nth_list_update
          split: if_splits option.splits)
  qed
qed

section \<open>Fields that a piece of code leaves alone\<close>

lemma keeps_state_single:
  "keeps_state p s [oc] = (p < length (heap (world_of oc)) \<and> state (heap (world_of oc) ! p) = s)"
  by (simp add: keeps_state_def)

lemma keeps_state_append:
  "keeps_state p s (xs @ ys) = (keeps_state p s xs \<and> keeps_state p s ys)"
  by (auto simp: keeps_state_def)

lemma keeps_state_bind:
  assumes "keeps_state p s (m w)"
    and "\<And>a w'. p < length (heap w') \<Longrightarrow> state (heap w' ! p) = s \<Longrightarrow> keeps_state p s (f a w')"
  shows "keeps_state p s (go_bind m f w)"
  unfolding keeps_state_def go_bind_def
proof
  fix oc assume "oc \<in> set (concat (map (continue f) (m w)))"
  then obtain o1 where o1: "o1 \<in> set (m w)" and oc: "oc \<in> set (continue f o1)" by auto
  from assms(1) o1 have k: "p < length (heap (world_of o1)) \<and> state (heap (world_of o1) ! p) = s"
    by (simp add: keeps_state_def)
  show "p < length (heap (world_of oc)) \<and> state (heap (world_of oc) ! p) = s"
  proof (cases o1)
    case (Returns a w')
    with k assms(2)[of w' a] oc show ?thesis by (simp add: keeps_state_def)
  next
    case (Panics r w')
    with k oc show ?thesis by simp
  next
    case (Blocks w')
    with k oc show ?thesis by simp
  qed
qed

lemma keeps_state_Await:
  assumes "p < length (heap w)" "state (heap w ! p) = s"
  shows "keeps_state p s (Await q w)"
proof (cases "q < length (heap w)")
  case True
  with assms show ?thesis
    by (auto simp: keeps_state_def Await_live nth_list_update split: option.splits)
next
  case False
  with assms show ?thesis by (simp add: Await_dangling keeps_state_def)
qed

lemma reject_dangling: "\<not> c < length (heap w) \<Longrightarrow> reject c e w = [Panics nil_dereference w]"
  by (simp add: reject_def go_bind_def load_def)

lemma resolve_dangling: "\<not> c < length (heap w) \<Longrightarrow> resolve c v w = [Panics nil_dereference w]"
  by (simp add: resolve_def go_bind_def load_def)

lemma keeps_state_reject:
  assumes "p < length (heap w)" "state (heap w ! p) = s" "c \<noteq> p"
  shows "keeps_state p s (reject c e w)"
proof (cases "c < length (heap w)")
  case True
  with assms show ?thesis by (simp add: keeps_state_def reject_live)
next
  case False
  with assms show ?thesis by (simp add: reject_dangling keeps_state_def)
qed

lemma keeps_state_send_resolveChannel:
  assumes "p < length (heap w)" "state (heap w ! p) = s" "c \<noteq> p"
  shows "keeps_state p s (send_resolveChannel c v w)"
proof (cases "c < length (heap w)")
  case True
  with assms show ?thesis by (simp add: keeps_state_def send_resolveChannel_live)
next
  case False
  with assms show ?thesis
    by (simp add: keeps_state_def send_resolveChannel_def go_bind_def load_def)
qed

lemma keeps_state_modify_other:
  assumes "p < length (heap w)" "state (heap w ! p) = s" "c \<noteq> p"
  shows "keeps_state p s (modify c f w)"
  using assms by (simp add: keeps_state_def modify_def)

lemma keeps_state_resolve:
  assumes "p < length (heap w)" "state (heap w ! p) = s" "c \<noteq> p"
  shows "keeps_state p s (resolve c v w)"
proof (cases "c < length (heap w)")
  case False
  with assms show ?thesis by (simp add: resolve_dangling keeps_state_def)
next
  case live: True
  show ?thesis
  proof (cases "\<exists>q. v = VPromise q")
    case False
    with assms live show ?thesis by (simp add: keeps_state_def resolve_value_live)
  next
    case True
    then obtain q where v: "v = VPromise q" by blast
    have "keeps_state p s (go_bind (Await q) (\<lambda>(flattenedResult, e).
             if e \<noteq> None then reject c e
             else go_bind (send_resolveChannel c flattenedResult)
                    (\<lambda>_. modify c (\<lambda>pr. pr\<lparr>state := FULFILLED\<rparr>))) w)"
    proof (rule keeps_state_bind)
      show "keeps_state p s (Await q w)" using assms by (simp add: keeps_state_Await)
    next
      fix a :: "val \<times> error" and w' :: world
      assume k: "p < length (heap w')" "state (heap w' ! p) = s"
      obtain fr e where a: "a = (fr, e)" by (cases a)
      have "keeps_state p s (go_bind (send_resolveChannel c fr)
                    (\<lambda>_. modify c (\<lambda>pr. pr\<lparr>state := FULFILLED\<rparr>)) w')"
        by (rule keeps_state_bind)
           (simp_all add: k assms(3) keeps_state_send_resolveChannel keeps_state_modify_other)
      with k assms(3) a
      show "keeps_state p s ((case a of (flattenedResult, e) \<Rightarrow>
             if e \<noteq> None then reject c e
             else go_bind (send_resolveChannel c flattenedResult)
                    (\<lambda>_. modify c (\<lambda>pr. pr\<lparr>state := FULFILLED\<rparr>))) w')"
        by (simp add: keeps_state_reject)
    qed
    with assms live v show ?thesis by (simp add: resolve_promise_live keeps_state_def)
  qed
qed

lemma keeps_state_handlePanic:
  assumes "p < length (heap w)" "state (heap w ! p) = s" "c \<noteq> p"
  shows "keeps_state p s (handlePanic c r w)"
  using assms
  by (cases r) (simp_all add: handlePanic_cases go_return_def keeps_state_def keeps_state_reject[unfolded keeps_state_def])

lemma keeps_state_invoke:
  assumes "p < length (heap w)" "state (heap w ! p) = s"
  shows "keeps_state p s (invoke c w)"
proof -
  obtain out a where c: "c = (out, a)" by (cases c)
  with assms show ?thesis by (cases a) (simp_all add: keeps_state_def)
qed

lemma keeps_state_goroutine:
  assumes "keeps_state p s (ex (resolve c) (reject c) w)" "c \<noteq> p"
  shows "keeps_state p s (goroutine c ex w)"
  unfolding keeps_state_def goroutine_def
proof
  fix oc assume "oc \<in> set (concat (map (deferred_handlePanic c) (ex (resolve c) (reject c) w)))"
  then obtain o1 where o1: "o1 \<in> set (ex (resolve c) (reject c) w)"
    and oc: "oc \<in> set (deferred_handlePanic c o1)" by auto
  from assms(1) o1 have k: "p < length (heap (world_of o1))" "state (heap (world_of o1) ! p) = s"
    by (simp_all add: keeps_state_def)
  show "p < length (heap (world_of oc)) \<and> state (heap (world_of oc) ! p) = s"
  proof (cases o1)
    case (Returns a w')
    with k oc assms(2) keeps_state_handlePanic[of p w' s c RecNil] show ?thesis
      by (simp add: keeps_state_def)
  next
    case (Panics r w')
    with k oc assms(2) keeps_state_handlePanic[of p w' s c r] show ?thesis
      by (simp add: keeps_state_def)
  next
    case (Blocks w')
    with k oc show ?thesis by simp
  qed
qed

lemma keeps_state_spawned:
  "keeps_state p s (map (spawned c) ocs) = keeps_state p s ocs"
proof -
  have "world_of (spawned c oc) = world_of oc" for oc :: "unit outcome"
    by (cases oc) simp_all
  then show ?thesis by (simp add: keeps_state_def)
qed

section \<open>The constructors, evaluated\<close>

lemma Reject_eq:
  "Reject e w =
     [Returns (length (heap w))
        (w\<lparr>heap := heap w @ [\<lparr>state = REJECTED, resolveChannel = None, rejectChannel = Some e,
                   result = VNil, err = None\<rparr>]\<rparr>)]"
  by (simp add: Reject_def New_def goroutine_def reject_live handlePanic_cases go_return_def Let_def)

lemma Resolve_value:
  "(\<forall>q. v \<noteq> VPromise q) \<Longrightarrow> Resolve v w =
     [Returns (length (heap w))
        (w\<lparr>heap := heap w @ [\<lparr>state = FULFILLED, resolveChannel = Some v, rejectChannel = None,
                   result = VNil, err = None\<rparr>]\<rparr>)]"
  by (simp add: Resolve_def New_def goroutine_def resolve_value_live handlePanic_cases
        go_return_def Let_def)

lemma Resolve_Reject_error:
  "Resolve_Reject (Some m) w =
     [Returns (Suc (length (heap w)))
        (w\<lparr>heap := heap w @
           [\<lparr>state = REJECTED, resolveChannel = None, rejectChannel = None,
             result = VNil, err = Some m\<rparr>,
            \<lparr>state = REJECTED, resolveChannel = None, rejectChannel = Some (Some m),
             result = VNil, err = None\<rparr>]\<rparr>)]"
  by (simp add: Resolve_Reject_def Reject_eq Resolve_def New_def Let_def
        goroutine_def resolve_promise_live go_bind_def Await_live nth_append reject_live
        handlePanic_cases go_return_def list_update_append)

lemma Resolve_Reject_nil:
  "Resolve_Reject None w =
     [Returns (Suc (length (heap w)))
        (w\<lparr>heap := heap w @
           [\<lparr>state = REJECTED, resolveChannel = None, rejectChannel = None,
             result = VNil, err = None\<rparr>,
            \<lparr>state = FULFILLED, resolveChannel = Some VNil, rejectChannel = None,
             result = VNil, err = None\<rparr>]\<rparr>)]"
  by (simp add: Resolve_Reject_def Reject_eq Resolve_def New_def Let_def
        goroutine_def resolve_promise_live go_bind_def Await_live nth_append reject_live
        send_resolveChannel_live modify_live
        handlePanic_cases go_return_def list_update_append)

lemma Resolve_Resolve_value:
  "(\<forall>q. v \<noteq> VPromise q) \<Longrightarrow> Resolve_Resolve v w =
     [Returns (Suc (length (heap w)))
        (w\<lparr>heap := heap w @
           [\<lparr>state = FULFILLED, resolveChannel = None, rejectChannel = None,
             result = v, err = None\<rparr>,
            \<lparr>state = FULFILLED, resolveChannel = Some v, rejectChannel = None,
             result = VNil, err = None\<rparr>]\<rparr>)]"
proof -
  assume v: "\<forall>q. v \<noteq> VPromise q"
  have "Resolve_Resolve v w =
      Resolve (VPromise (length (heap w)))
        (w\<lparr>heap := heap w @ [\<lparr>state = FULFILLED, resolveChannel = Some v, rejectChannel = None,
                   result = VNil, err = None\<rparr>]\<rparr>)"
    unfolding Resolve_Resolve_def
    by (rule go_bind_single_Returns[where m = "Resolve v", OF Resolve_value[OF v]])
  then show ?thesis
    by (simp add: Resolve_def New_def Let_def
        goroutine_def resolve_promise_live go_bind_def Await_live nth_append reject_live
        send_resolveChannel_live modify_live
        handlePanic_cases go_return_def list_update_append)
qed

section \<open>Every piece of code has an outcome\<close>

lemma go_bind_nonempty:
  assumes "m w \<noteq> []" and "\<And>a w'. f a w' \<noteq> []"
  shows "go_bind m f w \<noteq> []"
proof -
  from assms(1) obtain oc where oc: "oc \<in> set (m w)" by (cases "m w") auto
  have "continue f oc \<noteq> []" using assms(2) by (cases oc) simp_all
  with oc show ?thesis by (auto simp: go_bind_def)
qed

lemma go_bind_eq_Nil:
  assumes "\<forall>a w'. f a w' \<noteq> []"
  shows "(go_bind m f w = []) = (m w = [])"
proof
  assume "go_bind m f w = []"
  then show "m w = []" using go_bind_nonempty[of m w f] assms by blast
next
  assume "m w = []"
  then show "go_bind m f w = []" by (simp add: go_bind_def)
qed

lemma load_nonempty: "load p w \<noteq> []"
  by (simp add: load_def)

lemma modify_nonempty: "modify p f w \<noteq> []"
  by (simp add: modify_def)

lemma invoke_nonempty: "invoke c w \<noteq> []"
proof -
  obtain out a where "c = (out, a)" by (cases c)
  then show ?thesis by (cases a) simp_all
qed

lemma send_rejectChannel_nonempty: "send_rejectChannel p e w \<noteq> []"
  by (simp add: send_rejectChannel_def go_bind_eq_Nil load_nonempty modify_nonempty
        split: option.splits)

lemma send_resolveChannel_nonempty: "send_resolveChannel p v w \<noteq> []"
  by (simp add: send_resolveChannel_def go_bind_eq_Nil load_nonempty modify_nonempty
        split: option.splits)

lemma reject_nonempty: "reject p e w \<noteq> []"
  by (simp add: reject_def go_bind_eq_Nil load_nonempty modify_nonempty go_return_def
        send_rejectChannel_nonempty)

lemma select_channels_nonempty:
  assumes "\<forall>v w'. kv v w' \<noteq> []" "\<forall>e w'. ke e w' \<noteq> []"
  shows "select_channels p kv ke w \<noteq> []"
  using assms
  by (simp add: select_channels_def go_bind_eq_Nil load_nonempty modify_nonempty
        split: option.splits)

lemma Await_nonempty: "Await p w \<noteq> []"
  by (simp add: Await_def go_bind_eq_Nil select_channels_nonempty load_nonempty modify_nonempty
        go_return_def)

lemma resolve_nonempty: "resolve p v w \<noteq> []"
  by (simp add: resolve_def go_bind_eq_Nil load_nonempty modify_nonempty go_return_def
        send_resolveChannel_nonempty reject_nonempty Await_nonempty split: val.splits)

lemma handlePanic_nonempty: "handlePanic p r w \<noteq> []"
  by (cases r) (simp_all add: handlePanic_cases go_return_def reject_nonempty)

lemma goroutine_nonempty:
  assumes "ex (resolve c) (reject c) w \<noteq> []"
  shows "goroutine c ex w \<noteq> []"
proof -
  from assms obtain oc where oc: "oc \<in> set (ex (resolve c) (reject c) w)"
    by (cases "ex (resolve c) (reject c) w") auto
  have "deferred_handlePanic c oc \<noteq> []" by (cases oc) (simp_all add: handlePanic_nonempty)
  with oc show ?thesis by (auto simp: goroutine_def)
qed

lemma New_nonempty:
  assumes "\<And>c w'. ex (resolve c) (reject c) w' \<noteq> []"
  shows "New ex w \<noteq> []"
  by (simp add: New_def Let_def goroutine_nonempty assms)

lemma Then_nonempty: "Then p f g w \<noteq> []"
  unfolding Then_def
  by (rule New_nonempty)
     (simp add: Then_executor_def select_channels_nonempty go_bind_eq_Nil resetState_def
        modify_nonempty invoke_nonempty resolve_nonempty reject_nonempty)

lemma Catch_nonempty: "Catch p h w \<noteq> []"
  unfolding Catch_def
  by (rule New_nonempty)
     (simp add: Catch_executor_def select_channels_nonempty go_bind_eq_Nil
        invoke_nonempty resolve_nonempty reject_nonempty)

lemma Finally_nonempty: "Finally p k w \<noteq> []"
  unfolding Finally_def
  by (rule New_nonempty)
     (simp add: Finally_executor_def select_channels_nonempty go_bind_eq_Nil
        invoke_nonempty resolve_nonempty reject_nonempty go_return_def)

section \<open>The parent's state under Then, Catch and Finally\<close>

lemma keeps_state_New:
  assumes live: "p < length (heap w)"
    and ex: "\<And>w1. p < length (heap w1) \<Longrightarrow> state (heap w1 ! p) = state (heap w ! p) \<Longrightarrow>
              (\<forall>q < length (heap w). resolveChannel (heap w1 ! q) = resolveChannel (heap w ! q)
                 \<and> rejectChannel (heap w1 ! q) = rejectChannel (heap w ! q)) \<Longrightarrow>
              length (heap w) < length (heap w1) \<Longrightarrow>
              keeps_state p s (ex (resolve (length (heap w))) (reject (length (heap w))) w1)"
  shows "keeps_state p s (New ex w)"
proof -
  let ?c = "length (heap w)"
  let ?w1 = "w\<lparr>heap := heap w @
                 [\<lparr>state = PENDING, resolveChannel = None, rejectChannel = None,
                   result = VNil, err = None\<rparr>]\<rparr>"
  have "keeps_state p s (ex (resolve ?c) (reject ?c) ?w1)"
    using live by (intro ex) (simp_all add: nth_append)
  then have "keeps_state p s (goroutine ?c ex ?w1)"
    using live by (intro keeps_state_goroutine) simp_all
  then show ?thesis by (simp add: New_def Let_def keeps_state_spawned)
qed

lemma keeps_state_resetState:
  "p < length (heap w) \<Longrightarrow> keeps_state p PENDING (resetState p w)"
  by (simp add: resetState_def modify_live keeps_state_def)

lemma keeps_state_Then_fulfilled:
  assumes "p < length (heap w)" "resolveChannel (heap w ! p) = Some v"
    "rejectChannel (heap w ! p) = None"
  shows "keeps_state p PENDING (Then p f g w)"
  unfolding Then_def
proof (rule keeps_state_New[OF assms(1)])
  fix w1 :: world
  assume k: "p < length (heap w1)" "state (heap w1 ! p) = state (heap w ! p)"
    and ch: "\<forall>q < length (heap w). resolveChannel (heap w1 ! q) = resolveChannel (heap w ! q)
                 \<and> rejectChannel (heap w1 ! q) = rejectChannel (heap w ! q)"
    and c: "length (heap w) < length (heap w1)"
  let ?c = "length (heap w)"
  let ?w2 = "w1\<lparr>heap := (heap w1)[p := (heap w1 ! p)\<lparr>resolveChannel := None\<rparr>]\<rparr>"
  from ch assms have chp: "resolveChannel (heap w1 ! p) = Some v" "rejectChannel (heap w1 ! p) = None"
    by simp_all
  have "keeps_state p PENDING
          (go_bind (resetState p) (\<lambda>_. go_bind (invoke (f v)) (resolve ?c)) ?w2)"
  proof (rule keeps_state_bind)
    show "keeps_state p PENDING (resetState p ?w2)"
      using k by (simp add: keeps_state_resetState)
  next
    fix a :: unit and w' :: world
    assume k': "p < length (heap w')" "state (heap w' ! p) = PENDING"
    show "keeps_state p PENDING (go_bind (invoke (f v)) (resolve ?c) w')"
      by (rule keeps_state_bind)
         (use k' assms(1) in \<open>simp_all add: keeps_state_invoke keeps_state_resolve\<close>)
  qed
  with k chp show "keeps_state p PENDING (Then_executor p f g (resolve ?c) (reject ?c) w1)"
    by (simp add: Then_executor_def select_channels_live)
qed

lemma keeps_state_Then_not_fulfilled:
  assumes "p < length (heap w)" "resolveChannel (heap w ! p) = None"
  shows "keeps_state p (state (heap w ! p)) (Then p f g w)"
  unfolding Then_def
proof (rule keeps_state_New[OF assms(1)])
  fix w1 :: world
  assume k: "p < length (heap w1)" "state (heap w1 ! p) = state (heap w ! p)"
    and ch: "\<forall>q < length (heap w). resolveChannel (heap w1 ! q) = resolveChannel (heap w ! q)
                 \<and> rejectChannel (heap w1 ! q) = rejectChannel (heap w ! q)"
    and c: "length (heap w) < length (heap w1)"
  let ?c = "length (heap w)"
  let ?s = "state (heap w ! p)"
  from ch assms have chp: "resolveChannel (heap w1 ! p) = None" by simp
  have r: "keeps_state p ?s (go_bind (invoke (g e)) (reject ?c) w')"
    if "p < length (heap w')" "state (heap w' ! p) = ?s" for w' :: world and e
    by (rule keeps_state_bind)
       (use that assms(1) in \<open>simp_all add: keeps_state_invoke keeps_state_reject\<close>)
  from k chp r show "keeps_state p ?s (Then_executor p f g (resolve ?c) (reject ?c) w1)"
    by (simp add: Then_executor_def select_channels_live keeps_state_single split: option.splits)
qed

lemma keeps_state_Catch:
  assumes "p < length (heap w)"
  shows "keeps_state p (state (heap w ! p)) (Catch p h w)"
  unfolding Catch_def
proof (rule keeps_state_New[OF assms(1)])
  fix w1 :: world
  assume k: "p < length (heap w1)" "state (heap w1 ! p) = state (heap w ! p)"
    and c: "length (heap w) < length (heap w1)"
  let ?c = "length (heap w)"
  let ?s = "state (heap w ! p)"
  have r: "keeps_state p ?s (go_bind (invoke (h e)) (reject ?c) w')"
    if "p < length (heap w')" "state (heap w' ! p) = ?s" for w' :: world and e
    by (rule keeps_state_bind)
       (use that assms(1) in \<open>simp_all add: keeps_state_invoke keeps_state_reject\<close>)
  have v: "keeps_state p ?s (resolve ?c v w')"
    if "p < length (heap w')" "state (heap w' ! p) = ?s" for w' :: world and v
    using that assms(1) by (simp add: keeps_state_resolve)
  from k r v show "keeps_state p ?s (Catch_executor p h (resolve ?c) (reject ?c) w1)"
    by (simp add: Catch_executor_def select_channels_live keeps_state_append keeps_state_single
          split: option.splits)
qed

lemma keeps_state_Finally:
  assumes "p < length (heap w)"
  shows "keeps_state p (state (heap w ! p)) (Finally p k w)"
  unfolding Finally_def
proof (rule keeps_state_New[OF assms(1)])
  fix w1 :: world
  assume k: "p < length (heap w1)" "state (heap w1 ! p) = state (heap w ! p)"
    and c: "length (heap w) < length (heap w1)"
  let ?c = "length (heap w)"
  let ?s = "state (heap w ! p)"
  have r: "keeps_state p ?s (reject ?c e w')"
    if "p < length (heap w')" "state (heap w' ! p) = ?s" for w' :: world and e
    using that assms(1) by (simp add: keeps_state_reject)
  have v: "keeps_state p ?s (resolve ?c v w')"
    if "p < length (heap w')" "state (heap w' ! p) = ?s" for w' :: world and v
    using that assms(1) by (simp add: keeps_state_resolve)
  from k r v have s: "keeps_state p ?s
      (select_channels p (\<lambda>r. resolve ?c r) (\<lambda>e. reject ?c e) w1)"
    by (simp add: select_channels_live keeps_state_append keeps_state_single
          split: option.splits)
  have "keeps_state p ?s
      (go_bind (select_channels p (\<lambda>r. resolve ?c r) (\<lambda>e. reject ?c e))
         (\<lambda>_. go_bind (invoke k) (\<lambda>_. go_return ())) w1)"
  proof (rule keeps_state_bind[where m = "select_channels p (\<lambda>r. resolve ?c r) (\<lambda>e. reject ?c e)", OF s])
    fix a :: unit and w' :: world
    assume k': "p < length (heap w')" "state (heap w' ! p) = ?s"
    show "keeps_state p ?s (go_bind (invoke k) (\<lambda>_. go_return ()) w')"
      by (rule keeps_state_bind)
         (use k' in \<open>simp_all add: keeps_state_invoke go_return_def keeps_state_single\<close>)
  qed
  then show "keeps_state p ?s (Finally_executor p k (resolve ?c) (reject ?c) w1)"
    by (simp add: Finally_executor_def)
qed


section \<open>Recovery after settlement\<close>

lemma handlePanic_pending:
  assumes "p < length (heap w)" "state (heap w ! p) = PENDING" "rejectChannel (heap w ! p) = None"
  shows "handlePanic p (RecError m) w =
           [Returns () (w\<lparr>heap := (heap w)[p := (heap w ! p)
              \<lparr>state := REJECTED,
               rejectChannel := Some (Some (''panic recovery with error: '' @ m))\<rparr>]\<rparr>)]"
    and "handlePanic p (RecOther s) w =
           [Returns () (w\<lparr>heap := (heap w)[p := (heap w ! p)
              \<lparr>state := REJECTED,
               rejectChannel := Some (Some (''panic recovery with unknown error: '' @ s))\<rparr>]\<rparr>)]"
    and "handlePanic p RecNil w = [Returns () w]"
  using assms by (simp_all add: handlePanic_cases reject_live go_return_def)


lemma concat_map_concat_map:
  "concat (map g (concat (map h xs))) = concat (map (\<lambda>x. concat (map g (h x))) xs)"
  by (induction xs) simp_all

lemma goroutine_settle_then_panic:
  assumes settled: "\<And>u w'. Returns u w' \<in> set (m w) \<Longrightarrow>
              p < length (heap w') \<and> state (heap w' ! p) \<noteq> PENDING"
  shows "concat (map (deferred_handlePanic p) (go_bind m (\<lambda>_. go_panic r) w))
       = concat (map (deferred_handlePanic p) (m w))"
proof -
  have step: "concat (map (deferred_handlePanic p) (continue (\<lambda>_. go_panic r) oc))
        = deferred_handlePanic p oc" if "oc \<in> set (m w)" for oc
  proof (cases oc)
    case (Returns u w')
    with that settled have "p < length (heap w') \<and> state (heap w' ! p) \<noteq> PENDING" by blast
    with Returns show ?thesis
      by (simp add: go_panic_def handlePanic_settled)
  next
    case (Panics x w')
    then show ?thesis by simp
  next
    case (Blocks w')
    then show ?thesis by simp
  qed
  have "concat (map (deferred_handlePanic p) (go_bind m (\<lambda>_. go_panic r) w))
      = concat (map (\<lambda>oc. concat (map (deferred_handlePanic p) (continue (\<lambda>_. go_panic r) oc))) (m w))"
    by (simp add: go_bind_def concat_map_concat_map)
  also have "\<dots> = concat (map (deferred_handlePanic p) (m w))"
    using step by (simp cong: map_cong)
  finally show ?thesis .
qed

section \<open>Chaining on a rejected parent\<close>

lemma Catch_rejected_parent:
  assumes "p < length (heap w)" "resolveChannel (heap w ! p) = None"
    "rejectChannel (heap w ! p) = Some e" "h e = (out, Gives e')"
  shows "Catch p h w =
     [Returns (length (heap w))
        (w\<lparr>heap := (heap w)[p := (heap w ! p)\<lparr>rejectChannel := None\<rparr>] @
                  [\<lparr>state = REJECTED, resolveChannel = None, rejectChannel = Some e',
                    result = VNil, err = None\<rparr>],
           stdout := stdout w @ out\<rparr>)]"
  using assms
  by (simp add: Catch_def Catch_executor_def New_def Let_def goroutine_def select_channels_live
        nth_append go_bind_def reject_live handlePanic_cases go_return_def list_update_append)

lemma Then_rejected_parent:
  assumes "p < length (heap w)" "resolveChannel (heap w ! p) = None"
    "rejectChannel (heap w ! p) = Some e" "g e = (out, Gives e')"
  shows "Then p f g w =
     [Returns (length (heap w))
        (w\<lparr>heap := (heap w)[p := (heap w ! p)\<lparr>rejectChannel := None\<rparr>] @
                  [\<lparr>state = REJECTED, resolveChannel = None, rejectChannel = Some e',
                    result = VNil, err = None\<rparr>],
           stdout := stdout w @ out\<rparr>)]"
  using assms
  by (simp add: Then_def Then_executor_def New_def Let_def goroutine_def select_channels_live
        nth_append go_bind_def reject_live handlePanic_cases go_return_def list_update_append)

section \<open>The claims\<close>

subsection \<open>C1: resolve with a rejected inner promise\<close>

text \<open>
  C1 says that after \<^verbatim>\<open>resolve\<close> has been called with a promise whose settlement is a
  rejection, the outer promise's \<^verbatim>\<open>state\<close> is \<^verbatim>\<open>FULFILLED\<close>. The run below is
  that call, on a pending promise 1 with the rejected promise 0: \<^verbatim>\<open>Await\<close> returns the
  error, \<^verbatim>\<open>resolve\<close> calls \<^verbatim>\<open>reject\<close> and returns at once, and the assignment
  of \<^verbatim>\<open>FULFILLED\<close> after the switch is never reached. The state is \<^verbatim>\<open>REJECTED\<close>.
\<close>

theorem resolve_nested_rejection_not_FULFILLED:
  "resolve (Suc 0) (VPromise 0) nested_rejection_world = [Returns () nested_rejection_after]
   \<and> state (heap nested_rejection_after ! Suc 0) = REJECTED
   \<and> state (heap nested_rejection_after ! Suc 0) \<noteq> FULFILLED"
  by (simp add: nested_rejection_world_def nested_rejection_after_def resolve_promise_live
        go_bind_def Await_live reject_live)

text \<open>
  C1, amended: when \<^verbatim>\<open>resolve\<close> is called on a pending promise with a promise whose
  reject channel holds a non-nil error, the call has an outcome, and in every outcome the
  outer promise's \<^verbatim>\<open>state\<close> is \<^verbatim>\<open>REJECTED\<close>. When the outer promise is another
  promise and its reject channel is empty, the call returns: the inner promise's channel
  is drained into its \<^verbatim>\<open>err\<close> field and the outer promise holds the same error in
  its reject channel.
\<close>

theorem resolve_nested_rejection_REJECTED:
  assumes "outer < length (heap w)" "inner < length (heap w)"
    and "state (heap w ! outer) = PENDING"
    and "resolveChannel (heap w ! inner) = None"
    and "rejectChannel (heap w ! inner) = Some (Some m)"
  shows "resolve outer (VPromise inner) w \<noteq> []
     \<and> (\<forall>oc \<in> set (resolve outer (VPromise inner) w).
           state (heap (world_of oc) ! outer) = REJECTED)
     \<and> (outer \<noteq> inner \<and> rejectChannel (heap w ! outer) = None \<longrightarrow>
          resolve outer (VPromise inner) w =
            [Returns ()
               (w\<lparr>heap := (heap w)
                  [inner := (heap w ! inner)\<lparr>rejectChannel := None, err := Some m\<rparr>,
                   outer := (heap w ! outer)\<lparr>state := REJECTED, rejectChannel := Some (Some m)\<rparr>]\<rparr>)])"
  using assms
  by (auto simp: resolve_promise_live go_bind_def Await_live reject_live nth_list_update)

text \<open>The amended C1 at promise 1 and promise 0 of the world above.\<close>

theorem resolve_nested_rejection_REJECTED_witness:
  "Suc 0 < length (heap nested_rejection_world) \<and> 0 < length (heap nested_rejection_world)
   \<and> state (heap nested_rejection_world ! Suc 0) = PENDING
   \<and> resolveChannel (heap nested_rejection_world ! 0) = None
   \<and> rejectChannel (heap nested_rejection_world ! 0) = Some (Some ''boom'')
   \<and> Suc 0 \<noteq> (0::nat)
   \<and> rejectChannel (heap nested_rejection_world ! Suc 0) = None
   \<and> resolve (Suc 0) (VPromise 0) nested_rejection_world = [Returns () nested_rejection_after]"
  using resolve_nested_rejection_REJECTED [of "Suc 0" nested_rejection_world 0 "''boom''"]
  by (simp add: nested_rejection_world_def nested_rejection_after_def)

subsection \<open>C2: Resolve and Await\<close>

text \<open>
  C2: for every value \<open>v\<close> that is not a promise, \<^verbatim>\<open>Resolve(v)\<close> followed by
  \<^verbatim>\<open>Await()\<close> on the returned promise yields \<open>(v, nil)\<close>. The new promise is left
  fulfilled, drained, with \<open>v\<close> in its \<^verbatim>\<open>result\<close> field.
\<close>

theorem Resolve_Await_value:
  "(\<forall>q. v \<noteq> VPromise q) \<Longrightarrow> go_bind (Resolve v) Await w =
     [Returns (v, None)
        (w\<lparr>heap := heap w @ [\<lparr>state = FULFILLED, resolveChannel = None, rejectChannel = None,
                   result = v, err = None\<rparr>]\<rparr>)]"
  by (simp add: go_bind_def Resolve_value Await_live)

text \<open>C2 at the string \<open>done\<close>, from the empty world.\<close>

theorem Resolve_Await_value_witness:
  "(\<forall>q. VString ''done'' \<noteq> VPromise q)
   \<and> go_bind (Resolve (VString ''done'')) Await empty_world =
     [Returns (VString ''done'', None)
        \<lparr>heap = [\<lparr>state = FULFILLED, resolveChannel = None, rejectChannel = None,
                  result = VString ''done'', err = None\<rparr>],
         stdout = []\<rparr>]"
  using Resolve_Await_value [of "VString ''done''" empty_world]
  by (simp add: empty_world_def)

subsection \<open>C3: Resolve of a rejected promise\<close>

text \<open>
  C3 says that \<^verbatim>\<open>Resolve(Reject(errX))\<close> settles as a rejection for every error. The
  nil error is a value of Go's \<^verbatim>\<open>error\<close> type, and \<^verbatim>\<open>resolve\<close> tells rejection from
  fulfilment by \<^verbatim>\<open>err != nil\<close>: with \<^verbatim>\<open>Reject(nil)\<close> inside, the outer promise
  takes the fulfilment path. Below, promise 1 is the outer promise: its state is
  \<^verbatim>\<open>FULFILLED\<close> and nil sits in its resolve channel.
\<close>

theorem Resolve_Reject_nil_FULFILLED:
  "Resolve_Reject None empty_world =
     [Returns (Suc 0)
        \<lparr>heap = [\<lparr>state = REJECTED, resolveChannel = None, rejectChannel = None,
                  result = VNil, err = None\<rparr>,
                 \<lparr>state = FULFILLED, resolveChannel = Some VNil, rejectChannel = None,
                  result = VNil, err = None\<rparr>],
         stdout = []\<rparr>]"
  by (simp add: Resolve_Reject_nil empty_world_def)

text \<open>
  C3, amended: for every non-nil error \<open>errX\<close>, \<^verbatim>\<open>Resolve(Reject(errX))\<close> settles as a
  rejection carrying \<open>errX\<close> (state \<^verbatim>\<open>REJECTED\<close>, \<open>errX\<close> in the reject channel), and
  \<^verbatim>\<open>Await()\<close> on it returns \<open>(nil, errX)\<close>. For the nil error \<^verbatim>\<open>Await()\<close> returns
  \<open>(nil, nil)\<close> as well, from a promise that is fulfilled with nil. In neither case is
  the inner promise delivered as a value.
\<close>

theorem Resolve_Reject_settlement:
  "Resolve_Reject (Some m) w =
     [Returns (Suc (length (heap w)))
        (w\<lparr>heap := heap w @
           [\<lparr>state = REJECTED, resolveChannel = None, rejectChannel = None,
             result = VNil, err = Some m\<rparr>,
            \<lparr>state = REJECTED, resolveChannel = None, rejectChannel = Some (Some m),
             result = VNil, err = None\<rparr>]\<rparr>)]
   \<and> go_bind (Resolve_Reject (Some m)) Await w =
     [Returns (VNil, Some m)
        (w\<lparr>heap := heap w @
           [\<lparr>state = REJECTED, resolveChannel = None, rejectChannel = None,
             result = VNil, err = Some m\<rparr>,
            \<lparr>state = REJECTED, resolveChannel = None, rejectChannel = None,
             result = VNil, err = Some m\<rparr>]\<rparr>)]
   \<and> go_bind (Resolve_Reject None) Await w =
     [Returns (VNil, None)
        (w\<lparr>heap := heap w @
           [\<lparr>state = REJECTED, resolveChannel = None, rejectChannel = None,
             result = VNil, err = None\<rparr>,
            \<lparr>state = FULFILLED, resolveChannel = None, rejectChannel = None,
             result = VNil, err = None\<rparr>]\<rparr>)]"
  by (simp add: go_bind_single_Returns[where m = "Resolve_Reject (Some m)", OF Resolve_Reject_error]
        go_bind_single_Returns[where m = "Resolve_Reject None", OF Resolve_Reject_nil]
        Resolve_Reject_error Await_live nth_append list_update_append)

text \<open>The amended C3 at the error \<open>boom\<close>, from the empty world.\<close>

theorem Resolve_Reject_settlement_witness:
  "go_bind (Resolve_Reject (Some ''boom'')) Await empty_world =
     [Returns (VNil, Some ''boom'')
        \<lparr>heap = [\<lparr>state = REJECTED, resolveChannel = None, rejectChannel = None,
                  result = VNil, err = Some ''boom''\<rparr>,
                 \<lparr>state = REJECTED, resolveChannel = None, rejectChannel = None,
                  result = VNil, err = Some ''boom''\<rparr>],
         stdout = []\<rparr>]"
  using Resolve_Reject_settlement [of "''boom''" empty_world]
  by (simp add: empty_world_def)

subsection \<open>C4: flattening\<close>

text \<open>
  C4: \<^verbatim>\<open>Resolve(Resolve(5))\<close> behaves as \<^verbatim>\<open>Resolve(5)\<close>. After construction the
  outer promise is the record that \<^verbatim>\<open>Resolve(5)\<close> makes: fulfilled, with 5 (not a
  promise) in its resolve channel. \<^verbatim>\<open>Await()\<close> yields \<open>(5, nil)\<close> on both and leaves
  the same record.
\<close>

theorem Resolve_Resolve_flattens:
  "Resolve_Resolve (VInt 5) w =
     [Returns (Suc (length (heap w)))
        (w\<lparr>heap := heap w @
           [\<lparr>state = FULFILLED, resolveChannel = None, rejectChannel = None,
             result = VInt 5, err = None\<rparr>,
            \<lparr>state = FULFILLED, resolveChannel = Some (VInt 5), rejectChannel = None,
             result = VNil, err = None\<rparr>]\<rparr>)]
   \<and> Resolve (VInt 5) w =
     [Returns (length (heap w))
        (w\<lparr>heap := heap w @
           [\<lparr>state = FULFILLED, resolveChannel = Some (VInt 5), rejectChannel = None,
             result = VNil, err = None\<rparr>]\<rparr>)]
   \<and> go_bind (Resolve_Resolve (VInt 5)) Await w =
     [Returns (VInt 5, None)
        (w\<lparr>heap := heap w @
           [\<lparr>state = FULFILLED, resolveChannel = None, rejectChannel = None,
             result = VInt 5, err = None\<rparr>,
            \<lparr>state = FULFILLED, resolveChannel = None, rejectChannel = None,
             result = VInt 5, err = None\<rparr>]\<rparr>)]
   \<and> go_bind (Resolve (VInt 5)) Await w =
     [Returns (VInt 5, None)
        (w\<lparr>heap := heap w @
           [\<lparr>state = FULFILLED, resolveChannel = None, rejectChannel = None,
             result = VInt 5, err = None\<rparr>]\<rparr>)]"
  by (simp add: go_bind_single_Returns[where m = "Resolve_Resolve (VInt 5)", OF Resolve_Resolve_value]
        go_bind_single_Returns[where m = "Resolve (VInt 5)", OF Resolve_value]
        Resolve_Resolve_value Resolve_value Await_live nth_append list_update_append)

text \<open>C4 from the empty world.\<close>

theorem Resolve_Resolve_flattens_witness:
  "go_bind (Resolve_Resolve (VInt 5)) Await empty_world =
     [Returns (VInt 5, None)
        \<lparr>heap = [\<lparr>state = FULFILLED, resolveChannel = None, rejectChannel = None,
                  result = VInt 5, err = None\<rparr>,
                 \<lparr>state = FULFILLED, resolveChannel = None, rejectChannel = None,
                  result = VInt 5, err = None\<rparr>],
         stdout = []\<rparr>]"
  using Resolve_Resolve_flattens [of empty_world]
  by (simp add: empty_world_def)

subsection \<open>C5: settlement is idempotent\<close>

text \<open>
  C5: on a promise whose state is \<^verbatim>\<open>FULFILLED\<close> or \<^verbatim>\<open>REJECTED\<close>, a further call of
  \<^verbatim>\<open>resolve\<close> or \<^verbatim>\<open>reject\<close> returns normally and leaves the whole world as it
  was, so that what \<^verbatim>\<open>Await\<close> then delivers is what it would have delivered before.
\<close>

theorem settled_resolve_reject_noop:
  assumes "p < length (heap w)"
    and "state (heap w ! p) = FULFILLED \<or> state (heap w ! p) = REJECTED"
  shows "resolve p v w = [Returns () w] \<and> reject p e w = [Returns () w]
     \<and> go_bind (resolve p v) (\<lambda>_. Await p) w = Await p w
     \<and> go_bind (reject p e) (\<lambda>_. Await p) w = Await p w"
proof -
  from assms(2) have ns: "state (heap w ! p) \<noteq> PENDING" by auto
  have r1: "resolve p v w = [Returns () w]"
    using assms(1) ns by (simp add: resolve_def go_bind_load_live go_return_def)
  have r2: "reject p e w = [Returns () w]"
    using assms(1) ns by (simp add: reject_live)
  show ?thesis
    by (simp add: r1 r2 go_bind_single_Returns[where m = "resolve p v", OF r1]
          go_bind_single_Returns[where m = "reject p e", OF r2])
qed

text \<open>C5 on the promise fulfilled with 1: a second value and an error are both dropped.\<close>

theorem settled_resolve_reject_noop_witness:
  "0 < length (heap fulfilled_world)
   \<and> state (heap fulfilled_world ! 0) = FULFILLED
   \<and> resolve 0 (VInt 2) fulfilled_world = [Returns () fulfilled_world]
   \<and> reject 0 (Some ''boom'') fulfilled_world = [Returns () fulfilled_world]"
  using settled_resolve_reject_noop [of 0 fulfilled_world "VInt 2" "Some ''boom''"]
  by (simp add: fulfilled_world_def)

subsection \<open>C6: the three shapes of a recovered panic\<close>

text \<open>
  C6 names three message shapes. Two of them are what \<^verbatim>\<open>handlePanic\<close> does on a
  pending promise (lemma \<open>handlePanic_pending\<close>). The third is not: the branch
  \<^verbatim>\<open>case nil\<close> sits inside \<^verbatim>\<open>if e != nil\<close>, so a recovered nil value rejects
  nothing. Below, an executor panics with nil: the promise that \<^verbatim>\<open>New\<close> returns is
  still pending, both channels are empty, and \<^verbatim>\<open>Await\<close> on it blocks.
\<close>

theorem recovered_nil_no_rejection:
  "handlePanic 0 RecNil one_pending_world = [Returns () one_pending_world]
   \<and> New (panicking_executor RecNil) empty_world = [Returns 0 one_pending_world]
   \<and> Await 0 one_pending_world = [Blocks one_pending_world]"
  by (simp add: New_def panicking_executor_def go_panic_def goroutine_def handlePanic_cases
        go_return_def empty_world_def one_pending_world_def Await_live Let_def)

subsection \<open>C7: Then on a rejected promise\<close>

text \<open>
  C7: in \<^verbatim>\<open>Reject(errX).Then(f, g)\<close> followed by \<^verbatim>\<open>Await()\<close>, for every error
  \<open>errX\<close> and all handlers, when \<open>g errX\<close> prints \<open>out\<close> and returns \<open>e'\<close>:
  \<^verbatim>\<open>Await()\<close> returns \<open>(nil, e')\<close>, which is a nil error when \<open>g\<close> returns nil. The
  output gained is \<open>out\<close>, once: \<open>g\<close> has run once on \<open>errX\<close>. Nothing in the
  outcome depends on \<open>f\<close>, whatever it prints and whether it returns or panics: it has
  not run.
\<close>

theorem Reject_Then_short_circuit:
  assumes "g errX = (out, Gives e')"
  shows "go_bind (Reject_Then errX f g) Await w =
     [Returns (VNil, e')
        (w\<lparr>heap := heap w @
           [\<lparr>state = REJECTED, resolveChannel = None, rejectChannel = None,
             result = VNil, err = None\<rparr>,
            \<lparr>state = REJECTED, resolveChannel = None, rejectChannel = None,
             result = VNil, err = e'\<rparr>],
          stdout := stdout w @ out\<rparr>)]"
proof -
  have rt: "Reject_Then errX f g w =
     [Returns (Suc (length (heap w)))
        (w\<lparr>heap := heap w @
           [\<lparr>state = REJECTED, resolveChannel = None, rejectChannel = None,
             result = VNil, err = None\<rparr>,
            \<lparr>state = REJECTED, resolveChannel = None, rejectChannel = Some e',
             result = VNil, err = None\<rparr>],
          stdout := stdout w @ out\<rparr>)]"
    using assms
    by (simp add: Reject_Then_def Reject_eq Then_def Then_executor_def
          New_def Let_def goroutine_def select_channels_live nth_append go_bind_def reject_live
          handlePanic_cases go_return_def list_update_append)
  show ?thesis
    by (simp add: go_bind_single_Returns[where m = "Reject_Then errX f g", OF rt]
          Await_live nth_append list_update_append)
qed

text \<open>
  C7 with the handler of \<^verbatim>\<open>main\<close>'s \<^verbatim>\<open>Catch\<close> as \<open>g\<close>: it prints one line and
  returns nil, and \<^verbatim>\<open>Await()\<close> returns a nil error.
\<close>

theorem Reject_Then_short_circuit_witness:
  "swallow (Some ''boom'') = ([''I am in catch block''], Gives None)
   \<and> go_bind (Reject_Then (Some ''boom'') pass_value swallow) Await empty_world =
     [Returns (VNil, None)
        \<lparr>heap = [\<lparr>state = REJECTED, resolveChannel = None, rejectChannel = None,
                  result = VNil, err = None\<rparr>,
                 \<lparr>state = REJECTED, resolveChannel = None, rejectChannel = None,
                  result = VNil, err = None\<rparr>],
         stdout = [''I am in catch block'']\<rparr>]"
  using Reject_Then_short_circuit
          [of swallow "Some ''boom''" "[''I am in catch block'']" None pass_value empty_world]
  by (simp add: swallow_def empty_world_def)

subsection \<open>C8: which combinator resets the parent's state\<close>

text \<open>
  C8, for a parent \<open>p\<close> whose resolve channel holds a value (the fulfilment branch) and
  a parent \<open>q\<close> whose resolve channel is empty (the rejection branch, or no branch
  yet): after \<^verbatim>\<open>p.Then(f, g)\<close> the state of \<open>p\<close> is \<^verbatim>\<open>PENDING\<close>, in every outcome
  and so also when \<open>f\<close> panics or the resolution of the new promise blocks: the reset
  comes before both. After \<^verbatim>\<open>q.Then(f, g)\<close>, and after \<^verbatim>\<open>Catch\<close> and
  \<^verbatim>\<open>Finally\<close> on either parent, the parent's state is what it was. Each of the six
  calls has an outcome.
\<close>

theorem Then_resets_parent_state:
  assumes "p < length (heap w)" "q < length (heap w)"
    and "resolveChannel (heap w ! p) = Some v" "rejectChannel (heap w ! p) = None"
    and "resolveChannel (heap w ! q) = None"
  shows "keeps_state p PENDING (Then p f g w)
     \<and> keeps_state q (state (heap w ! q)) (Then q f g w)
     \<and> keeps_state p (state (heap w ! p)) (Catch p h w)
     \<and> keeps_state q (state (heap w ! q)) (Catch q h w)
     \<and> keeps_state p (state (heap w ! p)) (Finally p k w)
     \<and> keeps_state q (state (heap w ! q)) (Finally q k w)
     \<and> Then p f g w \<noteq> [] \<and> Then q f g w \<noteq> []
     \<and> Catch p h w \<noteq> [] \<and> Catch q h w \<noteq> []
     \<and> Finally p k w \<noteq> [] \<and> Finally q k w \<noteq> []"
  using assms
  by (simp add: keeps_state_Then_fulfilled keeps_state_Then_not_fulfilled keeps_state_Catch
        keeps_state_Finally Then_nonempty Catch_nonempty Finally_nonempty)

text \<open>
  C8 on a fulfilled promise 0 and a rejected promise 1: \<^verbatim>\<open>Then\<close> leaves promise 0
  pending and promise 1 rejected; \<^verbatim>\<open>Catch\<close> leaves promise 0 fulfilled.
\<close>

theorem Then_resets_parent_state_witness:
  "0 < length (heap settled_pair_world) \<and> Suc 0 < length (heap settled_pair_world)
   \<and> resolveChannel (heap settled_pair_world ! 0) = Some (VInt 1)
   \<and> rejectChannel (heap settled_pair_world ! 0) = None
   \<and> resolveChannel (heap settled_pair_world ! Suc 0) = None
   \<and> state (heap settled_pair_world ! 0) = FULFILLED
   \<and> Then 0 pass_value pass_error settled_pair_world =
       [Returns (Suc (Suc 0))
          \<lparr>heap = [\<lparr>state = PENDING, resolveChannel = None, rejectChannel = None,
                    result = VNil, err = None\<rparr>,
                   \<lparr>state = REJECTED, resolveChannel = None,
                    rejectChannel = Some (Some ''boom''), result = VNil, err = None\<rparr>,
                   \<lparr>state = FULFILLED, resolveChannel = Some (VInt 1), rejectChannel = None,
                    result = VNil, err = None\<rparr>],
           stdout = []\<rparr>]
   \<and> Then (Suc 0) pass_value pass_error settled_pair_world =
       [Returns (Suc (Suc 0))
          \<lparr>heap = [\<lparr>state = FULFILLED, resolveChannel = Some (VInt 1), rejectChannel = None,
                    result = VNil, err = None\<rparr>,
                   \<lparr>state = REJECTED, resolveChannel = None, rejectChannel = None,
                    result = VNil, err = None\<rparr>,
                   \<lparr>state = REJECTED, resolveChannel = None,
                    rejectChannel = Some (Some ''boom''), result = VNil, err = None\<rparr>],
           stdout = []\<rparr>]
   \<and> Catch 0 pass_error settled_pair_world =
       [Returns (Suc (Suc 0))
          \<lparr>heap = [\<lparr>state = FULFILLED, resolveChannel = None, rejectChannel = None,
                    result = VNil, err = None\<rparr>,
                   \<lparr>state = REJECTED, resolveChannel = None,
                    rejectChannel = Some (Some ''boom''), result = VNil, err = None\<rparr>,
                   \<lparr>state = FULFILLED, resolveChannel = Some (VInt 1), rejectChannel = None,
                    result = VNil, err = None\<rparr>],
           stdout = []\<rparr>]"
  using Then_resets_parent_state
          [of 0 settled_pair_world "Suc 0" "VInt 1" pass_value pass_error pass_error]
  by (simp add: settled_pair_world_def Then_def Then_executor_def Catch_def Catch_executor_def
        New_def Let_def goroutine_def select_channels_live go_bind_def resetState_def modify_live
        pass_value_def pass_error_def resolve_value_live reject_live handlePanic_cases
        go_return_def)

subsection \<open>C9: a reject handler that returns nil\<close>

text \<open>
  C9 says that the promise returned by a combinator whose reject handler returned nil
  settles as fulfilled. \<^verbatim>\<open>Catch\<close> passes the handler's result to \<^verbatim>\<open>reject\<close>, and
  \<^verbatim>\<open>reject\<close> does not look at the error it is given. Below,
  \<^verbatim>\<open>Reject(errors.New("boom")).Catch(swallow)\<close>: the new promise, promise 1, has state
  \<^verbatim>\<open>REJECTED\<close> and a nil error in its reject channel.
\<close>

theorem swallowed_rejection_not_FULFILLED:
  "Reject_Catch (Some ''boom'') swallow empty_world = [Returns (Suc 0) swallowed_world]
   \<and> state (heap swallowed_world ! Suc 0) = REJECTED
   \<and> state (heap swallowed_world ! Suc 0) \<noteq> FULFILLED"
  by (simp add: Reject_Catch_def Reject_eq go_bind_def Catch_def Catch_executor_def New_def Let_def
        goroutine_def select_channels_live swallow_def reject_live handlePanic_cases go_return_def
        empty_world_def swallowed_world_def)

text \<open>
  C9, amended: when the parent's reject channel holds an error and the reject handler
  \<open>h\<close> returns nil on it, the promise returned by \<^verbatim>\<open>Catch\<close>, and likewise by
  \<^verbatim>\<open>Then\<close>, settles as \<^verbatim>\<open>REJECTED\<close> with the nil error in its reject channel.
  \<^verbatim>\<open>Await()\<close> on it returns \<open>(nil, nil)\<close>, the pair a promise fulfilled with nil
  gives. A \<^verbatim>\<open>Then\<close> chained after it takes its rejection branch: it calls its reject
  handler \<open>g2\<close> on nil, not its fulfil handler, and rejects its own promise with the
  result.
\<close>

theorem swallowed_rejection_stays_REJECTED:
  assumes "p < length (heap w)" "resolveChannel (heap w ! p) = None"
    "rejectChannel (heap w ! p) = Some e" "h e = (out, Gives None)"
    "g2 None = (out2, Gives e2)"
  shows "Catch p h w =
     [Returns (length (heap w))
        (w\<lparr>heap := (heap w)[p := (heap w ! p)\<lparr>rejectChannel := None\<rparr>] @
                  [\<lparr>state = REJECTED, resolveChannel = None, rejectChannel = Some None,
                    result = VNil, err = None\<rparr>],
           stdout := stdout w @ out\<rparr>)]
   \<and> Then p f h w = Catch p h w
   \<and> go_bind (Catch p h) Await w =
     [Returns (VNil, None)
        (w\<lparr>heap := (heap w)[p := (heap w ! p)\<lparr>rejectChannel := None\<rparr>] @
                  [\<lparr>state = REJECTED, resolveChannel = None, rejectChannel = None,
                    result = VNil, err = None\<rparr>],
           stdout := stdout w @ out\<rparr>)]
   \<and> go_bind (Catch p h) (\<lambda>c. Then c f2 g2) w =
     [Returns (Suc (length (heap w)))
        (w\<lparr>heap := (heap w)[p := (heap w ! p)\<lparr>rejectChannel := None\<rparr>] @
                  [\<lparr>state = REJECTED, resolveChannel = None, rejectChannel = None,
                    result = VNil, err = None\<rparr>,
                   \<lparr>state = REJECTED, resolveChannel = None, rejectChannel = Some e2,
                    result = VNil, err = None\<rparr>],
           stdout := stdout w @ out @ out2\<rparr>)]"
proof -
  note hs = assms(1-4)
  note c = Catch_rejected_parent[where h = h and e = e, OF hs]
  note t = Then_rejected_parent[where g = h and e = e and f = f, OF hs]
  have a: "go_bind (Catch p h) Await w =
     [Returns (VNil, None)
        (w\<lparr>heap := (heap w)[p := (heap w ! p)\<lparr>rejectChannel := None\<rparr>] @
                  [\<lparr>state = REJECTED, resolveChannel = None, rejectChannel = None,
                    result = VNil, err = None\<rparr>],
           stdout := stdout w @ out\<rparr>)]"
    by (simp add: go_bind_single_Returns[where m = "Catch p h", OF c] Await_live nth_append
          list_update_append)
  have d: "go_bind (Catch p h) (\<lambda>c. Then c f2 g2) w =
          [Returns (Suc (length (heap w)))
             (w\<lparr>heap := (heap w)[p := (heap w ! p)\<lparr>rejectChannel := None\<rparr>] @
                  [\<lparr>state = REJECTED, resolveChannel = None, rejectChannel = None,
                    result = VNil, err = None\<rparr>,
                   \<lparr>state = REJECTED, resolveChannel = None, rejectChannel = Some e2,
                    result = VNil, err = None\<rparr>],
                stdout := stdout w @ out @ out2\<rparr>)]"
    by (simp add: go_bind_single_Returns[where m = "Catch p h", OF c]
          Then_rejected_parent[where g = g2 and e = None, OF _ _ _ assms(5)]
          nth_append list_update_append)
  show ?thesis using c t a d by simp
qed

text \<open>
  The amended C9 on the promise rejected with \<open>boom\<close>, with \<^verbatim>\<open>main\<close>'s handler,
  followed by a \<^verbatim>\<open>Then\<close> whose handlers pass their argument on.
\<close>

theorem swallowed_rejection_stays_REJECTED_witness:
  "0 < length (heap rejected_world)
   \<and> resolveChannel (heap rejected_world ! 0) = None
   \<and> rejectChannel (heap rejected_world ! 0) = Some (Some ''boom'')
   \<and> swallow (Some ''boom'') = ([''I am in catch block''], Gives None)
   \<and> pass_error None = ([], Gives None)
   \<and> Catch 0 swallow rejected_world = [Returns (Suc 0) swallowed_world]
   \<and> go_bind (Catch 0 swallow) (\<lambda>c. Then c pass_value pass_error) rejected_world =
       [Returns (Suc (Suc 0))
          \<lparr>heap = [\<lparr>state = REJECTED, resolveChannel = None, rejectChannel = None,
                    result = VNil, err = None\<rparr>,
                   \<lparr>state = REJECTED, resolveChannel = None, rejectChannel = None,
                    result = VNil, err = None\<rparr>,
                   \<lparr>state = REJECTED, resolveChannel = None, rejectChannel = Some None,
                    result = VNil, err = None\<rparr>],
           stdout = [''I am in catch block'']\<rparr>]"
  using swallowed_rejection_stays_REJECTED
          [of 0 rejected_world "Some ''boom''" swallow "[''I am in catch block'']"
              pass_error "[]" None pass_value pass_value]
  by (simp add: rejected_world_def swallowed_world_def swallow_def pass_error_def)

subsection \<open>C10: a panic after settlement\<close>

text \<open>
  C10 says that when the executor settles the promise and then panics, the state guard
  drops the rejection made from the panic. The guard reads the \<^verbatim>\<open>state\<close> field, and
  \<^verbatim>\<open>Then\<close> sets that field back to \<^verbatim>\<open>PENDING\<close> when it takes the value. In the
  schedule \<open>settle_reset_panic\<close> the executor of promise 0 calls \<^verbatim>\<open>resolve(1)\<close>, the
  goroutine of its \<^verbatim>\<open>Then\<close> successor takes the value and resets the state, and the
  executor then panics: \<^verbatim>\<open>reject\<close> passes the guard, promise 0 becomes
  \<^verbatim>\<open>REJECTED\<close> and the panic's error is put in its reject channel.
\<close>

theorem panic_after_Then_reset_not_dropped:
  "settle_reset_panic two_pending_world = [Returns () settle_reset_panic_after]
   \<and> state (heap settle_reset_panic_after ! 0) = REJECTED
   \<and> rejectChannel (heap settle_reset_panic_after ! 0)
       = Some (Some ''panic recovery with unknown error: late'')"
  by (simp add: settle_reset_panic_def two_pending_world_def settle_reset_panic_after_def
        go_bind_def resolve_value_live goroutine_def Then_executor_def select_channels_live
        resetState_def modify_live pass_value_def handlePanic_cases go_return_def reject_live)

text \<open>
  C10, amended. The rejection made from a panic is dropped by the state guard whenever
  the promise's state is not \<^verbatim>\<open>PENDING\<close> at the time the recovery runs: the world
  \<open>w\<close> is left as it is. That is the case when the goroutine of a promise runs its
  executor and the deferred recovery with no other goroutine in between: from any world
  \<open>w0\<close>, an executor that calls \<^verbatim>\<open>resolve\<close> or \<^verbatim>\<open>reject\<close> and then panics has
  exactly the outcomes of the executor that makes the same call and returns, so the
  state, the channels and the delivered value or error are those of the first settlement.
\<close>

theorem panic_after_settlement_dropped:
  assumes "p < length (heap w)" "state (heap w ! p) \<noteq> PENDING" "p < length (heap w0)"
  shows "handlePanic p r w = [Returns () w]
     \<and> goroutine p (resolve_then_panic v r) w0 = goroutine p (\<lambda>resolve reject. resolve v) w0
     \<and> goroutine p (reject_then_panic e r) w0 = goroutine p (\<lambda>resolve reject. reject e) w0"
proof -
  have a: "concat (map (deferred_handlePanic p) (go_bind (resolve p v) (\<lambda>_. go_panic r) w0))
         = concat (map (deferred_handlePanic p) (resolve p v w0))"
    by (rule goroutine_settle_then_panic[where m = "resolve p v"])
       (rule resolve_returns_settled[OF assms(3)])
  have b: "concat (map (deferred_handlePanic p) (go_bind (reject p e) (\<lambda>_. go_panic r) w0))
         = concat (map (deferred_handlePanic p) (reject p e w0))"
    by (rule goroutine_settle_then_panic[where m = "reject p e"])
       (rule reject_returns_settled[OF assms(3)])
  show ?thesis
    unfolding goroutine_def resolve_then_panic_def reject_then_panic_def
    using a b handlePanic_settled[OF assms(1,2)] by simp
qed

text \<open>
  The amended C10: a panic on the promise fulfilled with 1 changes nothing; a pending
  promise is, after \<^verbatim>\<open>resolve(1)\<close> and a panic, fulfilled with 1, and after
  \<^verbatim>\<open>reject\<close> with \<open>boom\<close> and a panic, rejected with \<open>boom\<close>.
\<close>

theorem panic_after_settlement_dropped_witness:
  "0 < length (heap fulfilled_world)
   \<and> state (heap fulfilled_world ! 0) \<noteq> PENDING
   \<and> 0 < length (heap one_pending_world)
   \<and> handlePanic 0 (RecOther ''late'') fulfilled_world = [Returns () fulfilled_world]
   \<and> goroutine 0 (resolve_then_panic (VInt 1) (RecOther ''late'')) one_pending_world
       = [Returns () fulfilled_world]
   \<and> goroutine 0 (reject_then_panic (Some ''boom'') (RecOther ''late'')) one_pending_world
       = [Returns () rejected_world]"
  using panic_after_settlement_dropped
          [of 0 fulfilled_world one_pending_world "RecOther ''late''" "VInt 1" "Some ''boom''"]
  by (simp add: one_pending_world_def fulfilled_world_def rejected_world_def goroutine_def
        resolve_value_live reject_live handlePanic_cases go_return_def)

end
